theory Spec2Isabelle
  imports Complex_Main
begin

section \<open>The prediction store of reflux (src/stores/prediction.js)\<close>

text \<open>
  The store keeps an API token and the array \<open>outputs\<close> of tracked jobs. Its actions
  are embedded as functions that take the store and return the new one. Every action is
  modelled as running to completion: what another action does while this one waits at
  an \<^verbatim>\<open>await\<close> is not part of the model. What the actions receive from
  outside the file (the two endpoints behind \<^verbatim>\<open>$fetch\<close>, the browser's
  \<^verbatim>\<open>fetch\<close> and \<^verbatim>\<open>FileReader\<close>) is a parameter \<open>env\<close>.
\<close>

subsection \<open>JavaScript values\<close>

text \<open>
  Numbers are exact rationals with the three special values of a double; rounding to
  53 bits and the sign of zero are not modelled.
\<close>

datatype jsnum = Num rat | NaN | PosInf | NegInf

text \<open>
  The values that travel through the store without being inspected field by field
  (status, input, result, error, coordinates) are JSON-like values. An object is an
  association list of its own properties.
\<close>

datatype jsval =
    JUndefined
  | JNull
  | JBool bool
  | JNum jsnum
  | JStr string
  | JArr "jsval list"
  | JObj "(string \<times> jsval) list"

text \<open>ToBoolean: what \<^verbatim>\<open>if (v)\<close>, \<^verbatim>\<open>!v\<close> and \<^verbatim>\<open>&&\<close> test.\<close>

fun truthy :: "jsval \<Rightarrow> bool" where
  "truthy JUndefined = False"
| "truthy JNull = False"
| "truthy (JBool b) = b"
| "truthy (JNum (Num r)) = (r \<noteq> 0)"
| "truthy (JNum NaN) = False"
| "truthy (JNum PosInf) = True"
| "truthy (JNum NegInf) = True"
| "truthy (JStr s) = (s \<noteq> [])"
| "truthy (JArr xs) = True"
| "truthy (JObj kvs) = True"

text \<open>
  A property that holds a string or is absent: \<open>None\<close> is \<^verbatim>\<open>undefined\<close>.
  Such a value is truthy when it is a non-empty string.
\<close>

definition truthy_str :: "string option \<Rightarrow> bool" where
  "truthy_str v = (case v of None \<Rightarrow> False | Some s \<Rightarrow> s \<noteq> [])"

subsection \<open>The data of the store\<close>

text \<open>
  An Output as \<^verbatim>\<open>createPrediction\<close> builds it (lines 52 to 65). The array is
  reloaded from local storage, so an entry may be \<^verbatim>\<open>null\<close> (\<open>None\<close> in the
  list), may lack its \<^verbatim>\<open>metadata\<close> and may lack its
  \<^verbatim>\<open>prediction_id\<close>: these are the cases the code guards against. The ids are
  strings. Outputs are values: two entries of the array never share an object, as is
  the case for an array read from its JSON text.
\<close>

record metadata =
  m_prediction_id :: "string option"
  m_x :: jsval
  m_y :: jsval
  m_rotation :: jsval
  m_width :: jsval
  m_height :: jsval

record Output =
  o_id :: string
  o_status :: jsval
  o_input :: jsval
  o_output :: jsval
  o_metadata :: "metadata option"

record store =
  replicate_api_token :: "string option"
  outputs :: "Output option list"

text \<open>\<^verbatim>\<open>output?.metadata?.prediction_id\<close>\<close>

definition opt_prediction_id :: "Output option \<Rightarrow> string option" where
  "opt_prediction_id out =
     (case out of
        None \<Rightarrow> None
      | Some ou \<Rightarrow> (case o_metadata ou of None \<Rightarrow> None | Some m \<Rightarrow> m_prediction_id m))"

subsection \<open>resetStore and cleanupOutputs\<close>

definition resetStore :: "store \<Rightarrow> store" where
  "resetStore s = s\<lparr>outputs := []\<rparr>"

text \<open>
  The predicate of the filter of lines 17 to 22:
  \<^verbatim>\<open>output && output.metadata && output.metadata.prediction_id
    && output.metadata.prediction_id.length > 0\<close>
\<close>

definition has_valid_id :: "Output option \<Rightarrow> bool" where
  "has_valid_id out =
     (case out of
        None \<Rightarrow> False
      | Some ou \<Rightarrow>
          (case o_metadata ou of
             None \<Rightarrow> False
           | Some m \<Rightarrow>
               truthy_str (m_prediction_id m) \<and>
               (case m_prediction_id m of None \<Rightarrow> False | Some pid \<Rightarrow> length pid > 0)))"

definition cleanupOutputs :: "store \<Rightarrow> store" where
  "cleanupOutputs s = s\<lparr>outputs := filter has_valid_id (outputs s)\<rparr>"

subsection \<open>The getter incompletePredictions\<close>

text \<open>
  Lines 170 to 177:
  \<^verbatim>\<open>output && output.metadata && output.metadata.prediction_id
    && output.status !== 'succeeded' && output.status !== 'failed'\<close>
\<close>

definition is_incomplete :: "Output option \<Rightarrow> bool" where
  "is_incomplete out =
     (case out of
        None \<Rightarrow> False
      | Some ou \<Rightarrow>
          (case o_metadata ou of
             None \<Rightarrow> False
           | Some m \<Rightarrow>
               truthy_str (m_prediction_id m) \<and>
               o_status ou \<noteq> JStr ''succeeded'' \<and> o_status ou \<noteq> JStr ''failed''))"

definition incompletePredictions :: "store \<Rightarrow> Output option list" where
  "incompletePredictions s = filter is_incomplete (outputs s)"

subsection \<open>Strings\<close>

text \<open>
  \<^verbatim>\<open>s.split(c)\<close> for a separator of one character: the pieces between the
  separators, in order; a string without the separator is the only piece.
\<close>

fun split_on :: "char \<Rightarrow> string \<Rightarrow> string list" where
  "split_on c [] = [[]]"
| "split_on c (x # xs) =
     (if x = c then [] # split_on c xs
      else (case split_on c xs of [] \<Rightarrow> [[x]] | p # ps \<Rightarrow> (x # p) # ps))"

definition startsWith :: "string \<Rightarrow> string \<Rightarrow> bool" where
  "startsWith s p = (take (length p) s = p)"

text \<open>\<^verbatim>\<open>toLowerCase\<close> on the letters A to Z; other characters are kept.\<close>

definition lower_char :: "char \<Rightarrow> char" where
  "lower_char c =
     (let n = (of_char c :: nat) in if 65 \<le> n \<and> n \<le> 90 then char_of (n + 32) else c)"

definition toLowerCase :: "string \<Rightarrow> string" where
  "toLowerCase s = map lower_char s"

text \<open>\<^verbatim>\<open>xs.join(sep)\<close>\<close>

fun join :: "string \<Rightarrow> string list \<Rightarrow> string" where
  "join sep [] = []"
| "join sep [x] = x"
| "join sep (x # y # ys) = x @ sep @ join sep (y # ys)"

text \<open>
  \<^verbatim>\<open>[...new Set(xs)]\<close>: the distinct elements of \<open>xs\<close> in the order of their
  first occurrence.
\<close>

fun spread_Set :: "'a list \<Rightarrow> 'a list" where
  "spread_Set [] = []"
| "spread_Set (x # xs) = x # spread_Set (filter (\<lambda>y. y \<noteq> x) xs)"

subsection \<open>Numbers\<close>

definition is_digit :: "char \<Rightarrow> bool" where
  "is_digit c = (let n = (of_char c :: nat) in 48 \<le> n \<and> n \<le> 57)"

definition digits_value :: "string \<Rightarrow> nat" where
  "digits_value s = foldl (\<lambda>a c. 10 * a + (of_char c - 48)) 0 s"

text \<open>Division and multiplication of doubles, exact on finite operands.\<close>

fun js_div :: "jsnum \<Rightarrow> jsnum \<Rightarrow> jsnum" where
  "js_div NaN b = NaN"
| "js_div a NaN = NaN"
| "js_div (Num a) (Num b) =
     (if b \<noteq> 0 then Num (a / b)
      else if a = 0 then NaN else if a > 0 then PosInf else NegInf)"
| "js_div (Num a) PosInf = Num 0"
| "js_div (Num a) NegInf = Num 0"
| "js_div PosInf (Num b) = (if b \<ge> 0 then PosInf else NegInf)"
| "js_div NegInf (Num b) = (if b \<ge> 0 then NegInf else PosInf)"
| "js_div PosInf PosInf = NaN"
| "js_div PosInf NegInf = NaN"
| "js_div NegInf PosInf = NaN"
| "js_div NegInf NegInf = NaN"

fun js_mul :: "jsnum \<Rightarrow> jsnum \<Rightarrow> jsnum" where
  "js_mul NaN b = NaN"
| "js_mul a NaN = NaN"
| "js_mul (Num a) (Num b) = Num (a * b)"
| "js_mul (Num a) PosInf = (if a = 0 then NaN else if a > 0 then PosInf else NegInf)"
| "js_mul (Num a) NegInf = (if a = 0 then NaN else if a > 0 then NegInf else PosInf)"
| "js_mul PosInf (Num b) = (if b = 0 then NaN else if b > 0 then PosInf else NegInf)"
| "js_mul NegInf (Num b) = (if b = 0 then NaN else if b > 0 then NegInf else PosInf)"
| "js_mul PosInf PosInf = PosInf"
| "js_mul PosInf NegInf = NegInf"
| "js_mul NegInf PosInf = NegInf"
| "js_mul NegInf NegInf = PosInf"

subsection \<open>What the actions receive from outside\<close>

text \<open>A settled promise: resolved with a value, or rejected.\<close>

datatype 'a promise = Resolved 'a | Rejected

text \<open>
  A remote job as an endpoint reports it: \<^verbatim>\<open>{ id, status, input, output, error }\<close>.
  An absent \<^verbatim>\<open>id\<close> is \<open>None\<close>.
\<close>

record prediction =
  p_id :: "string option"
  p_status :: jsval
  p_input :: jsval
  p_output :: jsval
  p_error :: jsval

text \<open>
  The body of a response of \<^verbatim>\<open>$fetch\<close>: nothing (\<^verbatim>\<open>null\<close> or
  \<^verbatim>\<open>undefined\<close>), one job object, or an array of job objects, an element of
  which may be \<^verbatim>\<open>null\<close>.
\<close>

datatype response = RNull | RObject prediction | RArray "prediction option list"

text \<open>
  The blob of a fetched asset: its media type, and what
  \<^verbatim>\<open>FileReader.readAsDataURL\<close> ends with, the data URL in
  \<^verbatim>\<open>reader.result\<close> or (\<open>None\<close>) the error event.
\<close>

record blob =
  blob_type :: string
  reader_result :: "string option"

text \<open>
  \<open>post_prediction\<close> is \<^verbatim>\<open>$fetch('/api/prediction', {method: 'POST', body})\<close> with
  the token and the input of the body, \<open>get_prediction\<close> is \<^verbatim>\<open>$fetch(pollUrl)\<close>,
  \<open>fetch_blob\<close> is \<^verbatim>\<open>fetch(url)\<close> followed by \<^verbatim>\<open>response.blob()\<close>.
  \<open>Number_other\<close> is \<^verbatim>\<open>Number(s)\<close> on the strings that are neither empty nor
  made of decimal digits only (signs, fractions, exponents, other radixes, white space),
  which this theory does not compute.
\<close>

record env =
  post_prediction :: "string option \<Rightarrow> jsval \<Rightarrow> response promise"
  get_prediction :: "string \<Rightarrow> response promise"
  fetch_blob :: "string \<Rightarrow> blob promise"
  Number_other :: "string \<Rightarrow> jsnum"

text \<open>The network calls an action makes, in the order it makes them.\<close>

datatype net_call = GetPrediction string | FetchAsset string

definition Number_js :: "env \<Rightarrow> string \<Rightarrow> jsnum" where
  "Number_js env s =
     (if s = [] then Num 0
      else if list_all is_digit s then Num (of_nat (digits_value s))
      else Number_other env s)"

subsection \<open>urlToBase64\<close>

text \<open>
  Lines 189 to 201: the media type, from the extension of the last path segment when it
  is a known image extension, from the blob otherwise.
\<close>

definition file_type :: "string \<Rightarrow> blob \<Rightarrow> string" where
  "file_type url b =
     (let urlParts = split_on CHR ''/'' url;
          fileName = last urlParts;
          fileExtension = toLowerCase (last (split_on CHR ''.'' fileName))
      in if fileExtension \<in> set [''jpg'', ''jpeg'', ''png'', ''gif'', ''webp'']
         then ''image/'' @ (if fileExtension = ''jpg'' then ''jpeg'' else fileExtension)
         else if blob_type b \<noteq> [] then blob_type b else ''application/octet-stream'')"

text \<open>
  Line 207: \<^verbatim>\<open>`data:${fileType};base64,${base64data.split(',')[1]}`\<close>; a missing
  second piece is \<^verbatim>\<open>undefined\<close> and prints as such.
\<close>

definition data_uri :: "string \<Rightarrow> string \<Rightarrow> string" where
  "data_uri fileType base64data =
     ''data:'' @ fileType @ '';base64,'' @
     (case split_on CHR '','' base64data of
        p # payload # ps \<Rightarrow> payload
      | _ \<Rightarrow> ''undefined'')"

text \<open>
  \<open>convertSingle\<close> (lines 183 to 217) returns the promise it settles with and the
  fetches it made. A rejected fetch is caught (line 213) and the reference is returned
  as it was; the promise around the reader (line 203) is returned, not awaited, so an
  error of the reader rejects the conversion.
\<close>

definition convertSingle :: "env \<Rightarrow> jsval \<Rightarrow> jsval promise \<times> net_call list" where
  "convertSingle env url =
     (case url of
        JStr s \<Rightarrow>
          if \<not> startsWith s ''https'' then (Resolved url, [])
          else (case fetch_blob env s of
                  Rejected \<Rightarrow> (Resolved url, [FetchAsset s])
                | Resolved b \<Rightarrow>
                    (case reader_result b of
                       None \<Rightarrow> (Rejected, [FetchAsset s])
                     | Some base64data \<Rightarrow>
                         (Resolved (JStr (data_uri (file_type s b) base64data)),
                          [FetchAsset s])))
      | _ \<Rightarrow> (Resolved url, []))"

text \<open>
  The guard of line 184, \<^verbatim>\<open>typeof url !== 'string' || !url.startsWith('https')\<close>:
  the references \<open>convertSingle\<close> returns without a fetch.
\<close>

definition passes_through :: "jsval \<Rightarrow> bool" where
  "passes_through url = (case url of JStr s \<Rightarrow> \<not> startsWith s ''https'' | _ \<Rightarrow> True)"


text \<open>\<^verbatim>\<open>Promise.all\<close>: the values in order, or rejected when one promise is.\<close>

fun promise_all :: "'a promise list \<Rightarrow> 'a list promise" where
  "promise_all [] = Resolved []"
| "promise_all (Rejected # ps) = Rejected"
| "promise_all (Resolved v # ps) =
     (case promise_all ps of Rejected \<Rightarrow> Rejected | Resolved vs \<Rightarrow> Resolved (v # vs))"

text \<open>
  Lines 219 to 223. \<^verbatim>\<open>urlOrArray.map(convertSingle)\<close> starts every conversion,
  so every fetch is made even when one conversion is rejected.
\<close>

definition urlToBase64 :: "env \<Rightarrow> jsval \<Rightarrow> jsval promise \<times> net_call list" where
  "urlToBase64 env urlOrArray =
     (case urlOrArray of
        JArr xs \<Rightarrow>
          (let rs = map (convertSingle env) xs
           in ((case promise_all (map fst rs) of
                  Rejected \<Rightarrow> Rejected
                | Resolved vs \<Rightarrow> Resolved (JArr vs)),
               concat (map snd rs)))
      | _ \<Rightarrow> convertSingle env urlOrArray)"

subsection \<open>createPrediction\<close>

text \<open>
  A property read of the response (\<^verbatim>\<open>prediction.error\<close>) throws on
  \<^verbatim>\<open>null\<close> and \<^verbatim>\<open>undefined\<close> (\<open>None\<close>); an array has none of the
  properties read.
\<close>

definition as_prediction :: "response \<Rightarrow> prediction option" where
  "as_prediction r =
     (case r of
        RNull \<Rightarrow> None
      | RObject p \<Rightarrow> Some p
      | RArray ps \<Rightarrow>
          Some \<lparr>p_id = None, p_status = JUndefined, p_input = JUndefined,
                p_output = JUndefined, p_error = JUndefined\<rparr>)"

text \<open>
  Line 45: \<^verbatim>\<open>input.aspect_ratio.split(':').map(Number)\<close>. \<open>None\<close> is the
  TypeError thrown when \<open>input\<close> is \<^verbatim>\<open>null\<close> or \<^verbatim>\<open>undefined\<close>, or when
  \<^verbatim>\<open>input.aspect_ratio\<close> is not a string.
\<close>

definition aspect_numbers :: "env \<Rightarrow> jsval \<Rightarrow> jsnum list option" where
  "aspect_numbers env input =
     (case input of
        JObj kvs \<Rightarrow>
          (case map_of kvs ''aspect_ratio'' of
             Some (JStr s) \<Rightarrow> Some (map (Number_js env) (split_on CHR '':'' s))
           | _ \<Rightarrow> None)
      | _ \<Rightarrow> None)"

text \<open>
  An element of the destructured array as an operand of \<^verbatim>\<open>/\<close>: a missing element
  is \<^verbatim>\<open>undefined\<close>, which converts to NaN.
\<close>

definition operand :: "jsnum list \<Rightarrow> nat \<Rightarrow> jsnum" where
  "operand parts i = (if i < length parts then parts ! i else NaN)"

text \<open>\<^verbatim>\<open>`${v}`\<close> for a string that may be \<^verbatim>\<open>undefined\<close>.\<close>

definition template_undefined :: "string option \<Rightarrow> string" where
  "template_undefined v = (case v of None \<Rightarrow> ''undefined'' | Some s \<Rightarrow> s)"

text \<open>
  Lines 25 to 75. The result is the new store and the value returned: the response, or
  \<open>None\<close> for \<^verbatim>\<open>undefined\<close> (the early return of line 40, and the end of the
  \<^verbatim>\<open>catch\<close> block).
\<close>

definition createPrediction :: "env \<Rightarrow> store \<Rightarrow> jsval \<Rightarrow> store \<times> response option" where
  "createPrediction env s input =
     (case post_prediction env (replicate_api_token s) input of
        Rejected \<Rightarrow> (s, None)
      | Resolved r \<Rightarrow>
          (case as_prediction r of
             None \<Rightarrow> (s, None)
           | Some prediction \<Rightarrow>
               if truthy (p_error prediction) then (s, None)
               else
                 (case aspect_numbers env input of
                    None \<Rightarrow> (s, None)
                  | Some parts \<Rightarrow>
                      (let baseSize = Num 300;
                           width = operand parts 0;
                           height = operand parts 1;
                           scaledWidth = baseSize;
                           scaledHeight = js_mul (js_div height width) baseSize;
                           newOutput =
                             \<lparr>o_id = ''output-'' @ template_undefined (p_id prediction),
                              o_status = p_status prediction,
                              o_input = p_input prediction,
                              o_output = JNull,
                              o_metadata =
                                Some \<lparr>m_prediction_id = p_id prediction,
                                      m_x = JNum (Num 0),
                                      m_y = JNum (Num 0),
                                      m_rotation = JNum (Num 0),
                                      m_width = JNum scaledWidth,
                                      m_height = JNum scaledHeight\<rparr>\<rparr>
                       in (s\<lparr>outputs := outputs s @ [Some newOutput]\<rparr>, Some r)))))"

subsection \<open>pollIncompletePredictions\<close>

text \<open>
  Lines 82 to 88: the ids to poll. The elements are strings or \<^verbatim>\<open>null\<close>
  (\<open>None\<close>) after the map; the filter keeps the non-empty strings.
\<close>

definition or_null :: "string option \<Rightarrow> string option" where
  "or_null v = (if truthy_str v then v else None)"

definition nonempty_id :: "string option \<Rightarrow> bool" where
  "nonempty_id v = (truthy_str v \<and> (case v of None \<Rightarrow> False | Some i \<Rightarrow> length i > 0))"

definition prediction_ids :: "store \<Rightarrow> string option list" where
  "prediction_ids s =
     spread_Set
       (filter nonempty_id
          (map (\<lambda>out. or_null (opt_prediction_id out)) (incompletePredictions s)))"

text \<open>
  Line 97. In a join, \<^verbatim>\<open>null\<close> prints as the empty string; in a template
  literal, the token \<^verbatim>\<open>null\<close> prints as \<^verbatim>\<open>null\<close>.
\<close>

definition join_element :: "string option \<Rightarrow> string" where
  "join_element v = (case v of None \<Rightarrow> [] | Some i \<Rightarrow> i)"

definition template_null :: "string option \<Rightarrow> string" where
  "template_null v = (case v of None \<Rightarrow> ''null'' | Some s \<Rightarrow> s)"

definition pollUrl :: "string option list \<Rightarrow> string option \<Rightarrow> string" where
  "pollUrl ids token =
     ''/api/prediction?ids='' @ join '','' (map join_element ids) @
     ''&token='' @ template_null token"

text \<open>
  \<^verbatim>\<open>this.outputs.findIndex(o => o.id === id)\<close>: the first index whose Output has
  the id, \<open>NotFound\<close> for -1, \<open>FindThrows\<close> for the TypeError of reading
  \<^verbatim>\<open>o.id\<close> on a \<^verbatim>\<open>null\<close> entry met before a match.
\<close>

datatype find_result = Found nat | NotFound | FindThrows

fun findIndex_id :: "Output option list \<Rightarrow> string \<Rightarrow> find_result" where
  "findIndex_id [] i = NotFound"
| "findIndex_id (None # outs) i = FindThrows"
| "findIndex_id (Some ou # outs) i =
     (if o_id ou = i then Found 0
      else (case findIndex_id outs i of Found n \<Rightarrow> Found (Suc n) | r \<Rightarrow> r))"

text \<open>
  Lines 124 to 137: the updated copy of one Output, and the fetches of the conversion.
  A rejected conversion is caught (line 134) and leaves the copy's
  \<^verbatim>\<open>output\<close> as the spread copied it.
\<close>

definition updatedOutput :: "env \<Rightarrow> prediction \<Rightarrow> Output \<Rightarrow> Output \<times> net_call list" where
  "updatedOutput env p ou =
     (let updated = ou\<lparr>o_status := p_status p, o_input := p_input p\<rparr>
      in if truthy (p_output p)
         then (case urlToBase64 env (p_output p) of
                 (Resolved v, calls) \<Rightarrow> (updated\<lparr>o_output := v\<rparr>, calls)
               | (Rejected, calls) \<Rightarrow> (updated, calls))
         else (updated, []))"

text \<open>
  Lines 119 to 141: the loop over \<^verbatim>\<open>outputsToUpdate\<close>, the Outputs the filter
  of line 114 found. The state is the array and the calls made so far; the flag is
  \<open>True\<close> when a TypeError left the loop (for the \<^verbatim>\<open>catch\<close> of line 143).
\<close>

fun update_outputs ::
  "env \<Rightarrow> prediction \<Rightarrow> Output option list \<Rightarrow> Output option list \<times> net_call list \<Rightarrow>
   (Output option list \<times> net_call list) \<times> bool" where
  "update_outputs env p [] st = (st, False)"
| "update_outputs env p (None # rest) st = (st, True)"
| "update_outputs env p (Some ou # rest) (outs, calls) =
     (case findIndex_id outs (o_id ou) of
        FindThrows \<Rightarrow> ((outs, calls), True)
      | NotFound \<Rightarrow> update_outputs env p rest (outs, calls)
      | Found outputIndex \<Rightarrow>
          (case updatedOutput env p ou of
             (updated, calls') \<Rightarrow>
               update_outputs env p rest
                 (outs[outputIndex := Some updated], calls @ calls')))"

text \<open>
  Lines 110 to 142: the loop over \<^verbatim>\<open>predictionsToProcess\<close>. A
  \<^verbatim>\<open>null\<close> element and one without a (non-empty) id are skipped.
\<close>

fun reconcile ::
  "env \<Rightarrow> prediction option list \<Rightarrow> Output option list \<times> net_call list \<Rightarrow>
   (Output option list \<times> net_call list) \<times> bool" where
  "reconcile env [] st = (st, False)"
| "reconcile env (None # ps) st = reconcile env ps st"
| "reconcile env (Some p # ps) (outs, calls) =
     (if \<not> truthy_str (p_id p) then reconcile env ps (outs, calls)
      else
        (case update_outputs env p
                (filter (\<lambda>out. opt_prediction_id out = p_id p) outs) (outs, calls) of
           (st, True) \<Rightarrow> (st, True)
         | (st, False) \<Rightarrow> reconcile env ps st))"

text \<open>How a call of \<open>pollIncompletePredictions\<close> ended.\<close>

datatype poll_end =
    NothingToPoll     \<comment> \<open>the return of line 91\<close>
  | PollingError      \<comment> \<open>the return of line 102, after the report of line 101\<close>
  | Reconciled        \<comment> \<open>the loops ran to their end\<close>
  | ErrorCaught       \<comment> \<open>the \<^verbatim>\<open>catch\<close> block of line 143\<close>

text \<open>Line 100: \<^verbatim>\<open>!pollResponse || pollResponse.error\<close>\<close>

definition response_error :: "response \<Rightarrow> bool" where
  "response_error r =
     (case r of RNull \<Rightarrow> True | RObject p \<Rightarrow> truthy (p_error p) | RArray ps \<Rightarrow> False)"

text \<open>Line 106: \<^verbatim>\<open>Array.isArray(pollResponse) ? pollResponse : [pollResponse]\<close>\<close>

definition predictionsToProcess :: "response \<Rightarrow> prediction option list" where
  "predictionsToProcess r =
     (case r of RArray ps \<Rightarrow> ps | RObject p \<Rightarrow> [Some p] | RNull \<Rightarrow> [None])"

text \<open>Lines 78 to 146: the new store, the network calls made, and how the call ended.\<close>

definition pollIncompletePredictions :: "env \<Rightarrow> store \<Rightarrow> store \<times> net_call list \<times> poll_end" where
  "pollIncompletePredictions env s0 =
     (let s = cleanupOutputs s0;
          ids = prediction_ids s
      in if length ids = 0 then (s, [], NothingToPoll)
         else
           (let url = pollUrl ids (replicate_api_token s)
            in (case get_prediction env url of
                  Rejected \<Rightarrow> (s, [GetPrediction url], ErrorCaught)
                | Resolved pollResponse \<Rightarrow>
                    if response_error pollResponse then (s, [GetPrediction url], PollingError)
                    else
                      (case reconcile env (predictionsToProcess pollResponse)
                              (outputs s, [GetPrediction url]) of
                         ((outs, calls), threw) \<Rightarrow>
                           (s\<lparr>outputs := outs\<rparr>, calls,
                            if threw then ErrorCaught else Reconciled)))))"


text \<open>
  What one element of the poll response does to one Output of the registry: the Output
  is replaced by its updated copy when the element is a job with a non-empty id that is
  the Output's \<open>prediction_id\<close>, and kept otherwise.
\<close>

definition reconcile_entry :: "env \<Rightarrow> prediction option \<Rightarrow> Output \<Rightarrow> Output" where
  "reconcile_entry env q ou =
     (case q of
        None \<Rightarrow> ou
      | Some p \<Rightarrow>
          if truthy_str (p_id p) \<and> opt_prediction_id (Some ou) = p_id p
          then fst (updatedOutput env p ou) else ou)"

text \<open>
  The registry has no \<^verbatim>\<open>null\<close> entry, and the entry at index \<open>k\<close> is the only one
  whose Output has the id \<open>i\<close>: \<^verbatim>\<open>findIndex(o => o.id === i)\<close> is \<open>k\<close>, and it is
  \<open>k\<close> for no other id.
\<close>

definition sole_owner :: "Output option list \<Rightarrow> nat \<Rightarrow> string \<Rightarrow> bool" where
  "sole_owner outs k i =
     (k < length outs \<and>
      (\<forall>j < length outs. \<exists>ou. outs ! j = Some ou \<and> (o_id ou = i \<longleftrightarrow> j = k)))"

subsection \<open>updateOutputPosition and removeOutput\<close>

text \<open>How a synchronous action ended: normally, or with an uncaught TypeError.\<close>

datatype completion = Normal | TypeError


text \<open>
  Lines 160 to 166, for an array of ids and for one id. Reading \<^verbatim>\<open>output.id\<close> on
  a \<^verbatim>\<open>null\<close> entry throws out of the filter, before the array is assigned.
\<close>

datatype id_argument = IdArray "string list" | OneId string

definition removeOutput :: "store \<Rightarrow> id_argument \<Rightarrow> store \<times> completion" where
  "removeOutput s arg =
     (if None \<in> set (outputs s) then (s, TypeError)
      else
        (case arg of
           IdArray ids \<Rightarrow>
             (s\<lparr>outputs :=
                  filter (\<lambda>out. case out of None \<Rightarrow> False | Some ou \<Rightarrow> o_id ou \<notin> set ids)
                    (outputs s)\<rparr>,
              Normal)
         | OneId i \<Rightarrow>
             (s\<lparr>outputs :=
                  filter (\<lambda>out. case out of None \<Rightarrow> False | Some ou \<Rightarrow> o_id ou \<noteq> i)
                    (outputs s)\<rparr>,
              Normal)))"

subsection \<open>Concrete stores and environments\<close>

text \<open>An Output as \<open>createPrediction\<close> leaves it for the aspect ratio 4:3.\<close>

definition example_metadata :: metadata where
  "example_metadata =
     \<lparr>m_prediction_id = Some ''job1'', m_x = JNum (Num 0), m_y = JNum (Num 0),
      m_rotation = JNum (Num 0), m_width = JNum (Num 300), m_height = JNum (Num 225)\<rparr>"

definition example_input :: jsval where
  "example_input = JObj [(''prompt'', JStr ''a red fox''), (''aspect_ratio'', JStr ''4:3'')]"

definition example_output :: Output where
  "example_output =
     \<lparr>o_id = ''output-job1'', o_status = JStr ''starting'', o_input = example_input,
      o_output = JNull, o_metadata = Some example_metadata\<rparr>"

text \<open>
  A store reloaded with damaged entries before a good one: a \<^verbatim>\<open>null\<close> entry, an
  Output without metadata, one without a prediction id and one with an empty one.
\<close>

definition malformed_store :: store where
  "malformed_store =
     \<lparr>replicate_api_token = Some ''r8_token'',
      outputs =
        [None,
         Some (example_output\<lparr>o_id := ''output-a'', o_metadata := None\<rparr>),
         Some (example_output\<lparr>o_id := ''output-b'',
                 o_metadata := Some (example_metadata\<lparr>m_prediction_id := None\<rparr>)\<rparr>),
         Some (example_output\<lparr>o_id := ''output-c'',
                 o_metadata := Some (example_metadata\<lparr>m_prediction_id := Some []\<rparr>)\<rparr>),
         Some example_output]\<rparr>"

text \<open>
  A second job; a store tracking two jobs; a store where two Outputs with different ids
  track the same job; a store where the same remote id was given out twice, so that two
  Outputs (at different places of the canvas) share their id and their job.
\<close>

definition example_output2 :: Output where
  "example_output2 =
     example_output\<lparr>o_id := ''output-job2'', o_status := JStr ''processing'',
       o_metadata := Some (example_metadata\<lparr>m_prediction_id := Some ''job2''\<rparr>)\<rparr>"

definition two_jobs_store :: store where
  "two_jobs_store =
     \<lparr>replicate_api_token = Some ''r8_token'',
      outputs = [Some example_output, Some example_output2]\<rparr>"





text \<open>The remote job as the creation endpoint and, later, the polling endpoint report it.\<close>

definition job1_created :: prediction where
  "job1_created =
     \<lparr>p_id = Some ''job1'', p_status = JStr ''starting'', p_input = example_input,
      p_output = JUndefined, p_error = JUndefined\<rparr>"

definition job1_succeeded :: prediction where
  "job1_succeeded =
     \<lparr>p_id = Some ''job1'', p_status = JStr ''succeeded'', p_input = example_input,
      p_output = JStr ''https://replicate.delivery/xyz/out-0.png'', p_error = JUndefined\<rparr>"

definition png_blob :: blob where
  "png_blob = \<lparr>blob_type = ''image/png'', reader_result = Some ''data:image/png;base64,iVBORw0KGgo=''\<rparr>"

text \<open>
  Five environments: every call answers; no call gets through; the endpoints answer with
  an error field; the endpoints answer but no asset can be fetched; the assets are
  fetched but the reader fails on them.
\<close>

definition env_online :: env where
  "env_online =
     \<lparr>post_prediction = (\<lambda>token input. Resolved (RObject job1_created)),
      get_prediction = (\<lambda>url. Resolved (RObject job1_succeeded)),
      fetch_blob = (\<lambda>url. Resolved png_blob),
      Number_other = (\<lambda>s. NaN)\<rparr>"

definition env_offline :: env where
  "env_offline =
     \<lparr>post_prediction = (\<lambda>token input. Rejected),
      get_prediction = (\<lambda>url. Rejected),
      fetch_blob = (\<lambda>url. Rejected),
      Number_other = (\<lambda>s. NaN)\<rparr>"

definition env_api_error :: env where
  "env_api_error =
     \<lparr>post_prediction =
        (\<lambda>token input. Resolved (RObject (job1_created\<lparr>p_error := JStr ''Invalid token''\<rparr>))),
      get_prediction =
        (\<lambda>url. Resolved (RObject (job1_succeeded\<lparr>p_error := JStr ''Invalid token''\<rparr>))),
      fetch_blob = (\<lambda>url. Resolved png_blob),
      Number_other = (\<lambda>s. NaN)\<rparr>"

definition env_asset_unreachable :: env where
  "env_asset_unreachable =
     \<lparr>post_prediction = (\<lambda>token input. Resolved (RObject job1_created)),
      get_prediction = (\<lambda>url. Resolved (RObject job1_succeeded)),
      fetch_blob = (\<lambda>url. Rejected),
      Number_other = (\<lambda>s. NaN)\<rparr>"


section \<open>Properties\<close>

subsection \<open>cleanupOutputs\<close>

lemma has_valid_id_iff:
  "has_valid_id out \<longleftrightarrow>
     (\<exists>ou m pid. out = Some ou \<and> o_metadata ou = Some m \<and>
        m_prediction_id m = Some pid \<and> pid \<noteq> [])"
  by (auto simp: has_valid_id_def truthy_str_def split: option.splits)

lemma cleanup_malformed_store:
  "outputs (cleanupOutputs malformed_store) = [Some example_output]"
  by (simp add: cleanupOutputs_def malformed_store_def has_valid_id_def truthy_str_def
      example_output_def example_metadata_def)

text \<open>
  C7. After \<open>cleanupOutputs\<close>, every entry left in the registry is an Output with
  metadata whose \<open>prediction_id\<close> is a string of positive length, whatever the registry
  held before (\<^verbatim>\<open>null\<close> entries, Outputs without metadata, without a prediction id,
  or with an empty one).
\<close>

theorem cleanupOutputs_nonempty_ids:
  "\<forall>out \<in> set (outputs (cleanupOutputs s)).
     \<exists>ou m pid. out = Some ou \<and> o_metadata ou = Some m \<and>
       m_prediction_id m = Some pid \<and> 0 < length pid"
  by (auto simp: cleanupOutputs_def has_valid_id_iff)

theorem cleanupOutputs_nonempty_ids_witness:
  "outputs (cleanupOutputs malformed_store) = [Some example_output] \<and>
   (\<exists>ou m pid. Some example_output = Some ou \<and> o_metadata ou = Some m \<and>
       m_prediction_id m = Some pid \<and> 0 < length pid)"
  using cleanupOutputs_nonempty_ids [of malformed_store] cleanup_malformed_store
  by simp

subsection \<open>createPrediction\<close>









text \<open>
  C6. When the creation call is rejected, or answers with a job object whose
  \<open>error\<close> is truthy, \<open>createPrediction\<close> returns \<^verbatim>\<open>undefined\<close> and the store,
  so the registry, is what it was.
\<close>

theorem createPrediction_failure:
  assumes "post_prediction env (replicate_api_token s) input = Rejected \<or>
           (\<exists>p. post_prediction env (replicate_api_token s) input = Resolved (RObject p) \<and>
                truthy (p_error p))"
  shows "createPrediction env s input = (s, None)"
  using assms by (auto simp: createPrediction_def as_prediction_def)

theorem createPrediction_failure_witness:
  "createPrediction env_offline malformed_store example_input = (malformed_store, None) \<and>
   createPrediction env_api_error malformed_store example_input = (malformed_store, None)"
  using createPrediction_failure [of env_offline malformed_store example_input]
    createPrediction_failure [of env_api_error malformed_store example_input]
  by (simp add: env_offline_def env_api_error_def)

subsection \<open>urlToBase64\<close>

lemma convertSingle_passes_through:
  "passes_through url \<Longrightarrow> convertSingle env url = (Resolved url, [])"
  by (auto simp: passes_through_def convertSingle_def split: jsval.splits)

lemma promise_all_Resolved: "promise_all (map Resolved xs) = Resolved xs"
  by (induction xs) auto

lemma urlToBase64_non_array:
  "(\<And>xs. x \<noteq> JArr xs) \<Longrightarrow> urlToBase64 env x = convertSingle env x"
  by (cases x) (auto simp: urlToBase64_def)

lemma pass_through_results:
  "list_all passes_through xs \<Longrightarrow> map fst (map (convertSingle env) xs) = map Resolved xs"
  by (induction xs) (simp_all add: convertSingle_passes_through)

lemma pass_through_calls:
  "list_all passes_through xs \<Longrightarrow> concat (map snd (map (convertSingle env) xs)) = []"
  by (induction xs) (simp_all add: convertSingle_passes_through)

text \<open>
  C8, as stated, fails on an array: an array is not a string beginning with
  \<^verbatim>\<open>https\<close>, yet its elements that are such strings are fetched and replaced.
\<close>

theorem urlToBase64_array_counterexample:
  "passes_through (JArr [JStr ''https://replicate.delivery/xyz/out-0.png'']) \<and>
   urlToBase64 env_online (JArr [JStr ''https://replicate.delivery/xyz/out-0.png'']) =
     (Resolved (JArr [JStr ''data:image/png;base64,iVBORw0KGgo='']),
      [FetchAsset ''https://replicate.delivery/xyz/out-0.png'']) \<and>
   urlToBase64 env_online (JArr [JStr ''https://replicate.delivery/xyz/out-0.png'']) \<noteq>
     (Resolved (JArr [JStr ''https://replicate.delivery/xyz/out-0.png'']), [])"
  by (simp add: passes_through_def urlToBase64_def convertSingle_def startsWith_def
      env_online_def png_blob_def data_uri_def file_type_def toLowerCase_def lower_char_def)

text \<open>
  C8, amended. \<open>urlToBase64\<close> resolves with its argument and makes no fetch for every
  argument that is not an array and is not a string beginning with \<^verbatim>\<open>https\<close>,
  and for every array none of whose elements is such a string.
\<close>

theorem urlToBase64_pass_through:
  assumes "case x of JArr xs \<Rightarrow> list_all passes_through xs | _ \<Rightarrow> passes_through x"
  shows "urlToBase64 env x = (Resolved x, [])"
proof (cases "\<exists>xs. x = JArr xs")
  case True
  then obtain xs where x: "x = JArr xs" by blast
  with assms have all: "list_all passes_through xs" by simp
  show ?thesis
    unfolding x urlToBase64_def Let_def
    by (simp only: pass_through_results [OF all] pass_through_calls [OF all]
        promise_all_Resolved jsval.case promise.case)
next
  case False
  then have na: "\<And>xs. x \<noteq> JArr xs" by blast
  with assms have "passes_through x" by (cases x) auto
  then show ?thesis
    by (simp add: urlToBase64_non_array [OF na] convertSingle_passes_through)
qed

theorem urlToBase64_pass_through_witness:
  "urlToBase64 env_online (JStr ''data:image/png;base64,iVBORw0KGgo='') =
     (Resolved (JStr ''data:image/png;base64,iVBORw0KGgo=''), []) \<and>
   urlToBase64 env_online (JArr [JStr ''http://example.org/a.png'', JNull]) =
     (Resolved (JArr [JStr ''http://example.org/a.png'', JNull]), [])"
  using urlToBase64_pass_through [of "JStr ''data:image/png;base64,iVBORw0KGgo=''" env_online]
    urlToBase64_pass_through [of "JArr [JStr ''http://example.org/a.png'', JNull]" env_online]
  by (simp add: passes_through_def startsWith_def)









subsection \<open>updateOutputPosition\<close>

lemma findIndex_id_Found:
  "findIndex_id outs i = Found n \<Longrightarrow>
     n < length outs \<and> (\<exists>ou. outs ! n = Some ou \<and> o_id ou = i) \<and>
     (\<forall>k < n. \<exists>ou. outs ! k = Some ou \<and> o_id ou \<noteq> i)"
proof (induction outs i arbitrary: n rule: findIndex_id.induct)
  case (3 ou outs i)
  show ?case
  proof (cases "o_id ou = i")
    case True
    with 3 show ?thesis by simp
  next
    case False
    with "3.prems" obtain n' where n': "findIndex_id outs i = Found n'" "n = Suc n'"
      by (auto split: find_result.splits)
    with "3.IH" False have IH: "n' < length outs" "\<exists>ou. outs ! n' = Some ou \<and> o_id ou = i"
      "\<forall>k < n'. \<exists>ou. outs ! k = Some ou \<and> o_id ou \<noteq> i"
      by auto
    show ?thesis
      using IH n' False by (auto simp: nth_Cons split: nat.splits)
  qed
qed simp_all




subsection \<open>pollIncompletePredictions: the poll request\<close>











lemma cleanup_token: "replicate_api_token (cleanupOutputs s) = replicate_api_token s"
  by (simp add: cleanupOutputs_def)






subsection \<open>pollIncompletePredictions: a failed poll\<close>

text \<open>
  C1, as stated, fails on a registry with damaged entries: \<open>cleanupOutputs\<close> runs
  before the poll request (line 80), so these entries are gone although the request
  failed.
\<close>

theorem poll_failure_counterexample:
  "pollIncompletePredictions env_offline malformed_store =
     (malformed_store\<lparr>outputs := [Some example_output]\<rparr>,
      [GetPrediction ''/api/prediction?ids=job1&token=r8_token''], ErrorCaught) \<and>
   outputs (fst (pollIncompletePredictions env_offline malformed_store)) \<noteq> outputs malformed_store"
  by (simp add: pollIncompletePredictions_def Let_def cleanupOutputs_def malformed_store_def
      prediction_ids_def incompletePredictions_def is_incomplete_def has_valid_id_def
      truthy_str_def example_output_def example_metadata_def opt_prediction_id_def or_null_def
      nonempty_id_def pollUrl_def join_element_def template_null_def env_offline_def)

text \<open>
  C1, amended. When the poll request is rejected, or answers with nothing or with a
  truthy \<open>error\<close>, nothing is reconciled: the store after the call is the store that
  \<open>cleanupOutputs\<close> leaves, that is the registry without its entries that lack a
  non-empty \<open>prediction_id\<close>, each remaining Output as it was and in its order. A
  registry without such entries is unchanged.
\<close>

theorem poll_failure_registry:
  assumes "get_prediction env
             (pollUrl (prediction_ids (cleanupOutputs s)) (replicate_api_token s)) = Rejected \<or>
           (\<exists>r. get_prediction env
             (pollUrl (prediction_ids (cleanupOutputs s)) (replicate_api_token s)) = Resolved r \<and>
             response_error r)"
  shows "fst (pollIncompletePredictions env s) = cleanupOutputs s \<and>
         outputs (fst (pollIncompletePredictions env s)) = filter has_valid_id (outputs s) \<and>
         (list_all has_valid_id (outputs s) \<longrightarrow> fst (pollIncompletePredictions env s) = s)"
proof -
  have a: "fst (pollIncompletePredictions env s) = cleanupOutputs s"
    using assms
    by (auto simp: pollIncompletePredictions_def Let_def cleanup_token)
  have b: "outputs (cleanupOutputs s) = filter has_valid_id (outputs s)"
    by (simp add: cleanupOutputs_def)
  have c: "cleanupOutputs s = s" if "list_all has_valid_id (outputs s)"
  proof -
    from that have "filter has_valid_id (outputs s) = outputs s"
      by (simp add: list_all_iff)
    then show ?thesis by (simp add: cleanupOutputs_def)
  qed
  from a b c show ?thesis by simp
qed

lemma response_error_examples:
  "response_error RNull"
  "response_error (RObject (job1_succeeded\<lparr>p_error := JStr ''Invalid token''\<rparr>))"
  by (simp_all add: response_error_def)

theorem poll_failure_registry_witness:
  "fst (pollIncompletePredictions env_offline two_jobs_store) = two_jobs_store \<and>
   fst (pollIncompletePredictions env_api_error two_jobs_store) = two_jobs_store \<and>
   outputs (fst (pollIncompletePredictions env_offline malformed_store)) = [Some example_output]"
proof -
  have valid: "list_all has_valid_id (outputs two_jobs_store)"
    by (simp add: two_jobs_store_def has_valid_id_def truthy_str_def example_output_def
        example_output2_def example_metadata_def)
  have off: "get_prediction env_offline url = Rejected" for url
    by (simp add: env_offline_def)
  have err: "\<exists>r. get_prediction env_api_error url = Resolved r \<and> response_error r" for url
    by (simp add: env_api_error_def response_error_examples)
  have "fst (pollIncompletePredictions env_offline two_jobs_store) = two_jobs_store"
    using poll_failure_registry [of env_offline two_jobs_store] off valid by blast
  moreover have "fst (pollIncompletePredictions env_api_error two_jobs_store) = two_jobs_store"
    using poll_failure_registry [of env_api_error two_jobs_store] err valid by blast
  moreover have "outputs (fst (pollIncompletePredictions env_offline malformed_store)) =
      [Some example_output]"
    using poll_failure_registry [of env_offline malformed_store] off cleanup_malformed_store
    by (simp add: cleanupOutputs_def)
  ultimately show ?thesis by blast
qed

subsection \<open>pollIncompletePredictions: reconciliation\<close>

text \<open>
  The loops write to the registry through \<^verbatim>\<open>findIndex\<close> on the id. The lemmas below
  follow one entry of the registry whose id no other entry carries: the inner loop and
  the outer loop never throw, keep the length and the ids, and leave at that index what
  \<open>reconcile_entry\<close> makes of the entry, one element of the response after the other.
\<close>

lemma updatedOutput_frame:
  "o_id (fst (updatedOutput env p ou)) = o_id ou"
  "o_metadata (fst (updatedOutput env p ou)) = o_metadata ou"
  by (auto simp: updatedOutput_def Let_def split: prod.splits promise.splits)

lemma findIndex_id_no_null:
  "\<forall>out \<in> set outs. out \<noteq> None \<Longrightarrow> findIndex_id outs i \<noteq> FindThrows"
  by (induction outs i rule: findIndex_id.induct) (auto split: find_result.splits)

lemma findIndex_id_NotFound:
  "findIndex_id outs i = NotFound \<Longrightarrow> Some ou \<in> set outs \<Longrightarrow> o_id ou \<noteq> i"
  by (induction outs i rule: findIndex_id.induct) (auto split: find_result.splits if_splits)

lemma sole_owner_nth:
  "sole_owner outs k i \<Longrightarrow> j < length outs \<Longrightarrow>
   \<exists>ou. outs ! j = Some ou \<and> (o_id ou = i \<longleftrightarrow> j = k)"
  by (simp add: sole_owner_def)

lemma sole_owner_no_null:
  assumes "sole_owner outs k i"
  shows "\<forall>out \<in> set outs. out \<noteq> None"
proof
  fix out assume "out \<in> set outs"
  then obtain j where j: "j < length outs" "outs ! j = out"
    by (auto simp: in_set_conv_nth)
  from sole_owner_nth [OF assms j(1)] j(2) show "out \<noteq> None" by auto
qed

lemma sole_owner_findIndex:
  assumes "sole_owner outs k i"
  shows "findIndex_id outs i = Found k"
proof (cases "findIndex_id outs i")
  case (Found n)
  from findIndex_id_Found [OF Found] assms show ?thesis
    using Found by (auto simp: sole_owner_def)
next
  case NotFound
  from assms obtain ou where "outs ! k = Some ou" "o_id ou = i" "k < length outs"
    by (auto simp: sole_owner_def)
  with findIndex_id_NotFound [OF NotFound, of ou] show ?thesis
    by (metis nth_mem)
next
  case FindThrows
  with findIndex_id_no_null [OF sole_owner_no_null [OF assms], of i] show ?thesis
    by simp
qed

lemma sole_owner_findIndex_other:
  assumes "sole_owner outs k i" and "i' \<noteq> i"
  shows "findIndex_id outs i' = NotFound \<or> (\<exists>n. findIndex_id outs i' = Found n \<and> n \<noteq> k \<and> n < length outs)"
proof (cases "findIndex_id outs i'")
  case (Found n)
  from findIndex_id_Found [OF Found] assms show ?thesis
    using Found by (auto simp: sole_owner_def)
next
  case NotFound
  then show ?thesis by simp
next
  case FindThrows
  with findIndex_id_no_null [OF sole_owner_no_null [OF assms(1)], of i'] show ?thesis
    by simp
qed

lemma sole_owner_update_owner:
  assumes "sole_owner outs k i" and "o_id u = i"
  shows "sole_owner (outs[k := Some u]) k i"
  unfolding sole_owner_def
proof (intro conjI allI impI)
  show "k < length (outs[k := Some u])"
    using assms(1) by (simp add: sole_owner_def)
next
  fix j assume "j < length (outs[k := Some u])"
  then have j: "j < length outs" by simp
  show "\<exists>ou. outs[k := Some u] ! j = Some ou \<and> (o_id ou = i \<longleftrightarrow> j = k)"
  proof (cases "j = k")
    case True
    with j assms(2) show ?thesis by simp
  next
    case False
    with sole_owner_nth [OF assms(1) j] show ?thesis by simp
  qed
qed

lemma sole_owner_update_other:
  assumes "sole_owner outs k i" and "n \<noteq> k" and "o_id u \<noteq> i"
  shows "sole_owner (outs[n := Some u]) k i"
  unfolding sole_owner_def
proof (intro conjI allI impI)
  show "k < length (outs[n := Some u])"
    using assms(1) by (simp add: sole_owner_def)
next
  fix j assume "j < length (outs[n := Some u])"
  then have j: "j < length outs" by simp
  show "\<exists>ou. outs[n := Some u] ! j = Some ou \<and> (o_id ou = i \<longleftrightarrow> j = k)"
  proof (cases "j = n")
    case True
    with j assms(2,3) show ?thesis by simp
  next
    case False
    with sole_owner_nth [OF assms(1) j] show ?thesis by simp
  qed
qed

lemma update_outputs_slot:
  assumes "sole_owner outs k i"
    and "\<forall>t \<in> set ts. \<exists>t'. t = Some t' \<and> (o_id t' = i \<longrightarrow> t' = c)"
    and "o_id c = i"
  shows "\<exists>outs' calls'. update_outputs env p ts (outs, calls) = ((outs', calls'), False) \<and>
           sole_owner outs' k i \<and> length outs' = length outs \<and>
           outs' ! k = (if Some c \<in> set ts then Some (fst (updatedOutput env p c)) else outs ! k)"
  using assms(1,2)
proof (induction ts arbitrary: outs calls)
  case Nil
  then show ?case by simp
next
  case (Cons t ts)
  from Cons.prems(2) obtain t' where t: "t = Some t'" "o_id t' = i \<longrightarrow> t' = c"
    by auto
  from Cons.prems(2) have rest: "\<forall>t \<in> set ts. \<exists>t'. t = Some t' \<and> (o_id t' = i \<longrightarrow> t' = c)"
    by simp
  obtain u cs where u: "updatedOutput env p t' = (u, cs)" by force
  then have u_frame: "o_id u = o_id t'"
    using updatedOutput_frame(1) [of env p t'] by simp
  have k: "k < length outs" using Cons.prems(1) by (simp add: sole_owner_def)
  show ?case
  proof (cases "o_id t' = i")
    case True
    with t have tc: "t' = c" by simp
    have found: "findIndex_id outs (o_id t') = Found k"
      using sole_owner_findIndex [OF Cons.prems(1)] True by simp
    have inv: "sole_owner (outs[k := Some u]) k i"
      using sole_owner_update_owner [OF Cons.prems(1)] u_frame True by simp
    from Cons.IH [OF inv rest, of "calls @ cs"] obtain outs' calls' where
      r: "update_outputs env p ts (outs[k := Some u], calls @ cs) = ((outs', calls'), False)"
        "sole_owner outs' k i" "length outs' = length outs"
        "outs' ! k = (if Some c \<in> set ts then Some (fst (updatedOutput env p c))
                      else (outs[k := Some u]) ! k)"
      by auto
    have "outs' ! k = Some (fst (updatedOutput env p c))"
      using r(4) k u tc by simp
    with r(1-3) found u t tc show ?thesis by simp
  next
    case False
    then have neq: "Some c \<noteq> t" using t assms(3) by auto
    from sole_owner_findIndex_other [OF Cons.prems(1), of "o_id t'"] False
    consider "findIndex_id outs (o_id t') = NotFound"
      | n where "findIndex_id outs (o_id t') = Found n" "n \<noteq> k" "n < length outs"
      by auto
    then show ?thesis
    proof cases
      case 1
      from Cons.IH [OF Cons.prems(1) rest, of calls] 1 t neq show ?thesis by auto
    next
      case 2
      have inv: "sole_owner (outs[n := Some u]) k i"
        using sole_owner_update_other [OF Cons.prems(1) 2(2)] u_frame False by simp
      from Cons.IH [OF inv rest, of "calls @ cs"] obtain outs' calls' where
        r: "update_outputs env p ts (outs[n := Some u], calls @ cs) = ((outs', calls'), False)"
          "sole_owner outs' k i" "length outs' = length outs"
          "outs' ! k = (if Some c \<in> set ts then Some (fst (updatedOutput env p c))
                        else (outs[n := Some u]) ! k)"
        by auto
      have "outs' ! k = (if Some c \<in> set (t # ts) then Some (fst (updatedOutput env p c))
                        else outs ! k)"
        using r(4) 2(2) neq by auto
      with r(1-3) 2(1) u t show ?thesis by simp
    qed
  qed
qed


lemma reconcile_slot:
  assumes "sole_owner outs k i" and "outs ! k = Some c"
  shows "\<exists>outs' calls'. reconcile env ps (outs, calls) = ((outs', calls'), False) \<and>
           sole_owner outs' k i \<and> length outs' = length outs \<and>
           outs' ! k = Some (fold (reconcile_entry env) ps c)"
  using assms
proof (induction ps arbitrary: outs calls c)
  case Nil
  then show ?case by simp
next
  case (Cons q ps)
  have k: "k < length outs" using Cons.prems(1) by (simp add: sole_owner_def)
  have idc: "o_id c = i"
    using sole_owner_nth [OF Cons.prems(1) k] Cons.prems(2) by simp
  show ?case
  proof (cases q)
    case None
    with Cons.IH [OF Cons.prems, of calls] show ?thesis
      by (simp add: reconcile_entry_def)
  next
    case (Some p)
    show ?thesis
    proof (cases "truthy_str (p_id p)")
      case False
      with Some Cons.IH [OF Cons.prems, of calls] show ?thesis
        by (simp add: reconcile_entry_def)
    next
      case True
      define ts where "ts = filter (\<lambda>out. opt_prediction_id out = p_id p) outs"
      have ts: "\<forall>t \<in> set ts. \<exists>t'. t = Some t' \<and> (o_id t' = i \<longrightarrow> t' = c)"
      proof
        fix t assume "t \<in> set ts"
        then have "t \<in> set outs" by (simp add: ts_def)
        then obtain n where n: "n < length outs" "outs ! n = t"
          by (auto simp: in_set_conv_nth)
        from sole_owner_nth [OF Cons.prems(1) n(1)] n(2) Cons.prems(2)
        show "\<exists>t'. t = Some t' \<and> (o_id t' = i \<longrightarrow> t' = c)" by auto
      qed
      have mem: "Some c \<in> set ts \<longleftrightarrow> opt_prediction_id (Some c) = p_id p"
        using k Cons.prems(2) by (auto simp: ts_def in_set_conv_nth)
      from update_outputs_slot [OF Cons.prems(1) ts idc, of env p calls]
      obtain outs1 calls1 where
        r: "update_outputs env p ts (outs, calls) = ((outs1, calls1), False)"
          "sole_owner outs1 k i" "length outs1 = length outs"
          "outs1 ! k = (if Some c \<in> set ts then Some (fst (updatedOutput env p c)) else outs ! k)"
        by blast
      have c1: "outs1 ! k = Some (reconcile_entry env (Some p) c)"
        using r(4) mem True Cons.prems(2) by (simp add: reconcile_entry_def)
      from Cons.IH [OF r(2) c1, of calls1] r(3)
      obtain outs' calls' where
        "reconcile env ps (outs1, calls1) = ((outs', calls'), False)"
        "sole_owner outs' k i" "length outs' = length outs"
        "outs' ! k = Some (fold (reconcile_entry env) ps (reconcile_entry env (Some p) c))"
        by auto
      with Some True r(1) show ?thesis
        by (simp add: ts_def)
    qed
  qed
qed

lemma poll_slot:
  assumes polled: "prediction_ids (cleanupOutputs s) \<noteq> []"
    and answer: "get_prediction env
        (pollUrl (prediction_ids (cleanupOutputs s)) (replicate_api_token s)) = Resolved r"
      "\<not> response_error r"
    and owner: "sole_owner (outputs (cleanupOutputs s)) k i"
    and entry: "outputs (cleanupOutputs s) ! k = Some c"
  shows "length (outputs (fst (pollIncompletePredictions env s))) =
           length (outputs (cleanupOutputs s)) \<and>
         outputs (fst (pollIncompletePredictions env s)) ! k =
           Some (fold (reconcile_entry env) (predictionsToProcess r) c) \<and>
         snd (snd (pollIncompletePredictions env s)) = Reconciled"
proof -
  define url where "url = pollUrl (prediction_ids (cleanupOutputs s)) (replicate_api_token s)"
  from reconcile_slot [OF owner entry, of env "predictionsToProcess r" "[GetPrediction url]"]
  obtain outs' calls' where
    "reconcile env (predictionsToProcess r) (outputs (cleanupOutputs s), [GetPrediction url]) =
       ((outs', calls'), False)"
    "length outs' = length (outputs (cleanupOutputs s))"
    "outs' ! k = Some (fold (reconcile_entry env) (predictionsToProcess r) c)"
    by blast
  with polled answer show ?thesis
    by (simp add: pollIncompletePredictions_def Let_def cleanup_token url_def [symmetric])
qed




lemma fold_reconcile_entry_other:
  assumes "\<forall>q. Some q \<in> set ps \<longrightarrow> p_id q \<noteq> opt_prediction_id (Some ou)"
  shows "fold (reconcile_entry env) ps ou = ou"
  using assms
proof (induction ps)
  case Nil
  then show ?case by simp
next
  case (Cons q ps)
  then have "reconcile_entry env q ou = ou"
    by (cases q) (auto simp: reconcile_entry_def)
  with Cons show ?case by simp
qed



lemma cleanup_no_null: "\<forall>out \<in> set (outputs (cleanupOutputs s)). out \<noteq> None"
  by (auto simp: cleanupOutputs_def has_valid_id_iff)

lemma sole_ownerI:
  assumes "k < length outs" and "\<forall>out \<in> set outs. out \<noteq> None" and "outs ! k = Some ou"
    and "\<forall>n < length outs. n \<noteq> k \<longrightarrow> map_option o_id (outs ! n) \<noteq> Some (o_id ou)"
  shows "sole_owner outs k (o_id ou)"
  unfolding sole_owner_def
proof (intro conjI allI impI)
  show "k < length outs" by fact
next
  fix j assume j: "j < length outs"
  then have "outs ! j \<noteq> None" using assms(2) by (metis nth_mem)
  then obtain ou' where ou': "outs ! j = Some ou'" by auto
  show "\<exists>ou'. outs ! j = Some ou' \<and> (o_id ou' = o_id ou \<longleftrightarrow> j = k)"
  proof (cases "j = k")
    case True
    with assms(3) show ?thesis by simp
  next
    case False
    with assms(4) j ou' show ?thesis by auto
  qed
qed









subsection \<open>pollIncompletePredictions: a failed conversion\<close>

lemma job1_conversion_unreachable:
  "urlToBase64 env_asset_unreachable (p_output job1_succeeded) =
     (Resolved (JStr ''https://replicate.delivery/xyz/out-0.png''),
      [FetchAsset ''https://replicate.delivery/xyz/out-0.png''])"
  by (simp add: job1_succeeded_def urlToBase64_def convertSingle_def startsWith_def
      env_asset_unreachable_def)



text \<open>
  The same for a whole call of \<open>pollIncompletePredictions\<close>, when the response holds the
  job once and no other entry of the registry carries the Output's id: the registry
  entry keeps its output and takes the job's status and input.
\<close>

lemma conversion_failure_poll:
  assumes polled: "prediction_ids (cleanupOutputs s) \<noteq> []"
    and answer: "get_prediction env
        (pollUrl (prediction_ids (cleanupOutputs s)) (replicate_api_token s)) = Resolved r"
      "\<not> response_error r"
    and job: "predictionsToProcess r = before @ Some p # after" "p_id p = Some j" "j \<noteq> []"
      "truthy (p_output p)" "fst (urlToBase64 env (p_output p)) = Rejected"
    and others: "\<forall>q. Some q \<in> set before \<union> set after \<longrightarrow> p_id q \<noteq> Some j"
    and entry: "k < length (outputs (cleanupOutputs s))"
      "outputs (cleanupOutputs s) ! k = Some ou" "opt_prediction_id (Some ou) = Some j"
    and owner: "\<forall>n < length (outputs (cleanupOutputs s)). n \<noteq> k \<longrightarrow>
        map_option o_id (outputs (cleanupOutputs s) ! n) \<noteq> Some (o_id ou)"
  shows "outputs (fst (pollIncompletePredictions env s)) ! k =
           Some (ou\<lparr>o_status := p_status p, o_input := p_input p\<rparr>)"
proof -
  have so: "sole_owner (outputs (cleanupOutputs s)) k (o_id ou)"
    using sole_ownerI [OF entry(1) cleanup_no_null entry(2) owner] .
  have before: "fold (reconcile_entry env) before ou = ou"
    using others entry(3) by (intro fold_reconcile_entry_other) simp
  obtain cs where cs: "urlToBase64 env (p_output p) = (Rejected, cs)"
    using job(5) by (cases "urlToBase64 env (p_output p)") auto
  define c2 where "c2 = ou\<lparr>o_status := p_status p, o_input := p_input p\<rparr>"
  have step: "reconcile_entry env (Some p) ou = c2"
    using entry(3) job(2,3,4) cs
    by (simp add: reconcile_entry_def truthy_str_def updatedOutput_def c2_def)
  have "opt_prediction_id (Some c2) = Some j"
    using entry(3) by (simp add: c2_def opt_prediction_id_def)
  with others have "fold (reconcile_entry env) after c2 = c2"
    by (intro fold_reconcile_entry_other) simp
  then have "fold (reconcile_entry env) (predictionsToProcess r) ou = c2"
    using step before by (simp add: job(1))
  with poll_slot [OF polled answer so entry(2)] show ?thesis
    by (simp add: c2_def)
qed


end
